theory Spec2Isabelle
  imports Main "HOL-Library.AList"
begin

section \<open>Outcomes of a JavaScript call\<close>

text \<open>
  A method either returns or throws. \<open>Error msg\<close> is an exception the program throws itself
  with \<^verbatim>\<open>throw new Error(msg)\<close>; \<open>TypeError\<close> is the exception the runtime raises when a
  property of \<^verbatim>\<open>undefined\<close> is read or a non-function is called (its message depends on
  the JavaScript engine and is left out). Every method below returns its outcome together
  with the state it leaves behind, so that the state after a throw can be inspected.
\<close>

datatype js_error = Error string | TypeError

datatype outcome = Returned | Threw js_error

section \<open>The animation library, seen from Fox.ts\<close>

text \<open>
  three.js is an external collaborator. An \<^verbatim>\<open>AnimationAction\<close> is an object handle; the
  mixer hands out one action per clip (\<^verbatim>\<open>mixer.clipAction(clip)\<close> returns the same object
  for the same clip), so a handle is identified by its clip. What the program does to
  the library is the sequence of method calls it makes; the mixer is modelled as the log
  of the calls received by it and by its actions, oldest first.
\<close>

type_synonym clip = nat

datatype action = ClipAction clip

datatype mixer_call =
    Reset action
  | Play action
  | Stop action
  | CrossFadeFrom action action nat bool
  | MixerUpdate int

type_synonym mixer = "mixer_call list"

definition stop_calls :: "action \<Rightarrow> mixer \<Rightarrow> nat" where
  \<comment> \<open>how often the log shows \<^verbatim>\<open>a.stop()\<close>, a call this program never makes\<close>
  "stop_calls a m = count_list m (Stop a)"

text \<open>\<^verbatim>\<open>action.reset()\<close>, \<^verbatim>\<open>action.play()\<close>: calls on an existing action.\<close>

definition action_reset :: "action \<Rightarrow> mixer \<Rightarrow> mixer" where
  "action_reset a m = m @ [Reset a]"

definition action_play :: "action \<Rightarrow> mixer \<Rightarrow> mixer" where
  "action_play a m = m @ [Play a]"

text \<open>
  \<^verbatim>\<open>action.crossFadeFrom(fadeOutAction, duration, warp)\<close>. The library starts by calling
  \<^verbatim>\<open>fadeOutAction.fadeOut(duration)\<close>, so an \<^verbatim>\<open>undefined\<close> argument raises a TypeError
  before the library has done anything.
\<close>

definition crossFadeFrom :: "action \<Rightarrow> action option \<Rightarrow> nat \<Rightarrow> bool \<Rightarrow> mixer \<Rightarrow> outcome \<times> mixer" where
  "crossFadeFrom a fadeOutAction duration warp m =
     (case fadeOutAction of
        None \<Rightarrow> (Threw TypeError, m)
      | Some old \<Rightarrow> (Returned, m @ [CrossFadeFrom a old duration warp]))"

section \<open>AnimationHolder (Fox.ts)\<close>

text \<open>
  \<^verbatim>\<open>actions\<close> is a plain JavaScript object used as a dictionary: its own properties in
  insertion order. \<open>map_of\<close> reads a property (\<open>None\<close> is \<^verbatim>\<open>undefined\<close>) and
  \<open>AList.update\<close> assigns one: it overwrites in place or appends a new key at the end.
  The constructor parameter \<^verbatim>\<open>current\<close> is a field of its own, distinct from the
  dictionary entry \<^verbatim>\<open>actions['current']\<close> that \<^verbatim>\<open>play\<close> reads and writes.
\<close>

record animationHolder =
  actions :: "(string \<times> action) list"
  mixer :: mixer
  current :: "action option"

definition new_AnimationHolder :: "mixer \<Rightarrow> action option \<Rightarrow> animationHolder" where
  "new_AnimationHolder m c = \<lparr>actions = [], mixer = m, current = c\<rparr>"

text \<open>
  \<^verbatim>\<open>
  play(name: string): void {
    const newAction = this.actions[name];
    const oldAction = this.actions['current'];
    newAction.reset();
    newAction.play();
    newAction.crossFadeFrom(oldAction, 1, false);
    this.actions['current'] = newAction;
  }
  \<close>
  When \<^verbatim>\<open>name\<close> is not a property of \<^verbatim>\<open>actions\<close>, \<^verbatim>\<open>newAction\<close> is \<^verbatim>\<open>undefined\<close> (or, for a
  name such as \<^verbatim>\<open>toString\<close>, a member inherited from \<^verbatim>\<open>Object.prototype\<close>, which has no
  \<^verbatim>\<open>reset\<close> method either), and \<^verbatim>\<open>newAction.reset()\<close> raises a TypeError.
\<close>

definition play :: "string \<Rightarrow> animationHolder \<Rightarrow> outcome \<times> animationHolder" where
  "play name h =
     (let newAction = map_of (actions h) name;
          oldAction = map_of (actions h) ''current''
      in case newAction of
           None \<Rightarrow> (Threw TypeError, h)
         | Some n \<Rightarrow>
             (let h1 = h\<lparr>mixer := action_reset n (mixer h)\<rparr>;
                  h2 = h1\<lparr>mixer := action_play n (mixer h1)\<rparr>
              in case crossFadeFrom n oldAction 1 False (mixer h2) of
                   (Threw e, m) \<Rightarrow> (Threw e, h2\<lparr>mixer := m\<rparr>)
                 | (Returned, m) \<Rightarrow>
                     (Returned, h2\<lparr>mixer := m,
                                   actions := AList.update ''current'' n (actions h2)\<rparr>)))"

section \<open>Fox (Fox.ts)\<close>

text \<open>
  The loaded GLTF asset, as far as the animation set-up reads it: the list of clips.
  A JavaScript array read out of range yields \<^verbatim>\<open>undefined\<close>.
\<close>

record gltf =
  animations :: "clip list"

definition array_get :: "'a list \<Rightarrow> nat \<Rightarrow> 'a option" where
  "array_get xs i = (if i < length xs then Some (xs ! i) else None)"

text \<open>
  \<^verbatim>\<open>mixer.clipAction(clip)\<close>: the library reads \<^verbatim>\<open>clip.uuid\<close>, so an \<^verbatim>\<open>undefined\<close> clip
  raises a TypeError; otherwise it returns the action of that clip.
\<close>

definition clipAction :: "clip option \<Rightarrow> js_error + action" where
  "clipAction c = (case c of None \<Rightarrow> Inl TypeError | Some k \<Rightarrow> Inr (ClipAction k))"

text \<open>
  The fields of \<^verbatim>\<open>Fox\<close> that the animation code touches. \<open>debugFolder\<close> is the debug
  panel's folder when the debug UI exists, with the names of the buttons added to it.
  The scene and the model group (\<^verbatim>\<open>configureModel\<close>, \<^verbatim>\<open>destroy\<close>) belong to the scene
  graph and never reach the animation holder; they are left out.
\<close>

record fox =
  gltf :: gltf
  animationHolder :: animationHolder
  debugFolder :: "string list option"

definition set_action :: "string \<Rightarrow> action \<Rightarrow> fox \<Rightarrow> fox" where
  \<comment> \<open>\<^verbatim>\<open>this.animationHolder.actions[key] = a\<close>\<close>
  "set_action key a f =
     f\<lparr>animationHolder :=
         (animationHolder f)\<lparr>actions := AList.update key a (actions (animationHolder f))\<rparr>\<rparr>"

definition folder_add :: "string \<Rightarrow> fox \<Rightarrow> fox" where
  \<comment> \<open>\<^verbatim>\<open>this.debugFolder.add(debugObject, key)\<close>, inside \<^verbatim>\<open>if (this.debugFolder)\<close>\<close>
  "folder_add key f =
     (case debugFolder f of
        None \<Rightarrow> f
      | Some buttons \<Rightarrow> f\<lparr>debugFolder := Some (buttons @ [key])\<rparr>)"

text \<open>
  \<^verbatim>\<open>
  configureAnimation(): void {
    this.animationHolder.actions['idle'] = this.animationHolder.mixer.clipAction(this.gltf.animations[0]);
    this.animationHolder.actions['walking'] = this.animationHolder.mixer.clipAction(this.gltf.animations[1]);
    this.animationHolder.actions['running'] = this.animationHolder.mixer.clipAction(this.gltf.animations[2]);
    this.animationHolder.actions['current'] = this.animationHolder.actions['idle'];
    this.animationHolder.actions['current'].play();
    if (this.debugFolder) { ... add playIdle, playWalking, playRunning ... }
  }
  \<close>
  The entry \<^verbatim>\<open>'idle'\<close> read back on the fourth line was assigned on the first, so the
  \<open>None\<close> branches of the two reads cannot be taken; they are written as the TypeError
  that \<^verbatim>\<open>.play()\<close> on \<^verbatim>\<open>undefined\<close> would raise.
\<close>

definition configureAnimation :: "fox \<Rightarrow> outcome \<times> fox" where
  "configureAnimation f =
     (case clipAction (array_get (animations (gltf f)) 0) of
        Inl e \<Rightarrow> (Threw e, f)
      | Inr a0 \<Rightarrow>
     (let f1 = set_action ''idle'' a0 f in
      case clipAction (array_get (animations (gltf f1)) 1) of
        Inl e \<Rightarrow> (Threw e, f1)
      | Inr a1 \<Rightarrow>
     (let f2 = set_action ''walking'' a1 f1 in
      case clipAction (array_get (animations (gltf f2)) 2) of
        Inl e \<Rightarrow> (Threw e, f2)
      | Inr a2 \<Rightarrow>
     (let f3 = set_action ''running'' a2 f2 in
      case map_of (actions (animationHolder f3)) ''idle'' of
        None \<Rightarrow> (Threw TypeError, f3)
      | Some i \<Rightarrow>
     (let f4 = set_action ''current'' i f3 in
      case map_of (actions (animationHolder f4)) ''current'' of
        None \<Rightarrow> (Threw TypeError, f4)
      | Some c \<Rightarrow>
     (let f5 = f4\<lparr>animationHolder :=
                   (animationHolder f4)\<lparr>mixer := action_play c (mixer (animationHolder f4))\<rparr>\<rparr>
      in (Returned,
          folder_add ''playRunning'' (folder_add ''playWalking'' (folder_add ''playIdle'' f5)))))))))"

text \<open>
  The constructor. \<open>debugUI\<close> tells whether \<^verbatim>\<open>DebugGUI.getUI()\<close> returned a panel and
  \<open>item\<close> is \<^verbatim>\<open>resourceLoader.items.get('foxModel')\<close>; reading \<^verbatim>\<open>.scene\<close> of an
  \<^verbatim>\<open>undefined\<close> item raises a TypeError. A constructor that throws yields no object.
\<close>

definition new_Fox :: "bool \<Rightarrow> gltf option \<Rightarrow> js_error + fox" where
  "new_Fox debugUI item =
     (case item of
        None \<Rightarrow> Inl TypeError
      | Some g \<Rightarrow>
          (case configureAnimation
                  \<lparr>gltf = g,
                   animationHolder = new_AnimationHolder [] None,
                   debugFolder = (if debugUI then Some [] else None)\<rparr> of
             (Threw e, f) \<Rightarrow> Inl e
           | (Returned, f) \<Rightarrow> Inr f))"

text \<open>
  The operations on a constructed fox that reach the holder: the three debug buttons,
  which call \<^verbatim>\<open>this.animationHolder.play\<close>, and \<^verbatim>\<open>update\<close>, which advances the mixer by
  \<^verbatim>\<open>experienceTime.delta * 0.001\<close> seconds (the log keeps the delta in milliseconds).
\<close>

definition fox_play :: "string \<Rightarrow> fox \<Rightarrow> outcome \<times> fox" where
  "fox_play name f =
     (case play name (animationHolder f) of (r, h) \<Rightarrow> (r, f\<lparr>animationHolder := h\<rparr>))"

definition playIdle :: "fox \<Rightarrow> outcome \<times> fox" where
  "playIdle = fox_play ''idle''"

definition playWalking :: "fox \<Rightarrow> outcome \<times> fox" where
  "playWalking = fox_play ''walking''"

definition playRunning :: "fox \<Rightarrow> outcome \<times> fox" where
  "playRunning = fox_play ''running''"

definition fox_update :: "int \<Rightarrow> fox \<Rightarrow> fox" where
  "fox_update delta f =
     f\<lparr>animationHolder :=
         (animationHolder f)\<lparr>mixer := mixer (animationHolder f) @ [MixerUpdate delta]\<rparr>\<rparr>"

text \<open>
  The foxes that can exist: built by the constructor, then driven by any sequence of
  \<^verbatim>\<open>play\<close> calls (with any name, whether they return or throw) and frame updates.
\<close>

inductive fox_reachable :: "fox \<Rightarrow> bool" where
  constructed: "new_Fox debugUI item = Inr f \<Longrightarrow> fox_reachable f"
| played: "fox_reachable f \<Longrightarrow> fox_reachable (snd (fox_play name f))"
| updated: "fox_reachable f \<Longrightarrow> fox_reachable (fox_update delta f)"

text \<open>
  The actions held under an animation name (every key but \<^verbatim>\<open>'current'\<close>), and the
  invariant of the data model: \<^verbatim>\<open>'current'\<close> is present and is one of them.
\<close>

definition held_actions :: "animationHolder \<Rightarrow> action list" where
  "held_actions h = map snd (filter (\<lambda>kv. fst kv \<noteq> ''current'') (actions h))"

definition current_valid :: "animationHolder \<Rightarrow> bool" where
  "current_valid h =
     (case map_of (actions h) ''current'' of
        None \<Rightarrow> False
      | Some a \<Rightarrow> a \<in> set (held_actions h))"

text \<open>
  What the specification asks of a failing call: an error thrown by the program itself
  that reports the missing name, as opposed to the runtime's TypeError.
\<close>

definition not_found_error :: "outcome \<Rightarrow> bool" where
  "not_found_error r = (case r of Threw (Error msg) \<Rightarrow> True | _ \<Rightarrow> False)"

section \<open>ThreeViewerComponent (three-viewer.component.ts)\<close>

text \<open>
  The component holds the canvas reference and the engine. \<^verbatim>\<open>Engine\<close> and the three
  services are separate objects; the world around the component is the log of the calls
  made to them, oldest first. An engine is a reference; \<open>EngineNew e c\<close> records that
  \<^verbatim>\<open>new Engine(c)\<close> returned \<open>e\<close>.
\<close>

type_synonym canvas = nat

datatype elementRef = ElementRef (nativeElement: canvas)

type_synonym engine = nat

datatype service = TimeService | ScreenSizeService | PointerService

text \<open>
  The three arrow functions handed to the services in \<^verbatim>\<open>ngOnInit\<close>; each closes over the
  component. Their bodies are \<open>consume\<close> below.
\<close>

datatype consumer = OnTime | OnResize | OnPointer

datatype world_call =
    EngineNew engine canvas
  | EngineDestroy engine
  | EngineUpdate engine nat
  | EngineResize engine nat
  | EngineReactToPointer engine nat
  | SetConsumer service consumer
  | Launch

type_synonym world = "world_call list"

record threeViewerComponent =
  canvasRef :: "elementRef option"
  engine :: "engine option"

text \<open>
  The component as Angular creates it: \<open>canvasRef\<close> is resolved from the template (or
  stays undefined) and \<open>engine\<close> starts undefined.
\<close>

definition new_ThreeViewerComponent :: "elementRef option \<Rightarrow> threeViewerComponent" where
  "new_ThreeViewerComponent r = \<lparr>canvasRef = r, engine = None\<rparr>"

fun is_EngineNew :: "world_call \<Rightarrow> bool" where
  "is_EngineNew (EngineNew e c) = True"
| "is_EngineNew _ = False"

text \<open>
  Modelled from the spec: the constructor of \<^verbatim>\<open>Engine\<close> (engine/Engine.ts is not among the
  sources). It builds an engine instance from the canvas element; the instance is a
  reference distinct from those of the engines built before.
\<close>

definition engines_built :: "world \<Rightarrow> nat" where
  "engines_built w = length (filter is_EngineNew w)"

definition new_Engine :: "canvas \<Rightarrow> world \<Rightarrow> engine \<times> world" where
  "new_Engine c w = (let e = engines_built w in (e, w @ [EngineNew e c]))"

text \<open>
  Modelled from the spec: \<^verbatim>\<open>Engine.destroy\<close>, \<^verbatim>\<open>Engine.update\<close>, \<^verbatim>\<open>Engine.resize\<close> and
  \<^verbatim>\<open>Engine.reactToPointer\<close> (engine/Engine.ts is not among the sources). The engine is
  released by \<^verbatim>\<open>destroy\<close> and receives time, resize and pointer events; each call is
  recorded with the engine it reaches and the event handed over.
\<close>

definition Engine_destroy :: "engine \<Rightarrow> world \<Rightarrow> world" where
  "Engine_destroy e w = w @ [EngineDestroy e]"

definition Engine_update :: "engine \<Rightarrow> nat \<Rightarrow> world \<Rightarrow> world" where
  "Engine_update e experienceTime w = w @ [EngineUpdate e experienceTime]"

definition Engine_resize :: "engine \<Rightarrow> nat \<Rightarrow> world \<Rightarrow> world" where
  "Engine_resize e sz w = w @ [EngineResize e sz]"

definition Engine_reactToPointer :: "engine \<Rightarrow> nat \<Rightarrow> world \<Rightarrow> world" where
  "Engine_reactToPointer e pointerEvent w = w @ [EngineReactToPointer e pointerEvent]"

text \<open>
  Modelled from the spec: \<^verbatim>\<open>setConsumer\<close> of the time, screen-size and pointer services
  and \<^verbatim>\<open>TimeService.launch\<close> (the services are not among the sources). \<^verbatim>\<open>setConsumer\<close>
  registers the callback the service invokes when its event occurs; \<^verbatim>\<open>launch\<close> starts
  the time source.
\<close>

definition setConsumer :: "service \<Rightarrow> consumer \<Rightarrow> world \<Rightarrow> world" where
  "setConsumer s k w = w @ [SetConsumer s k]"

definition launch :: "world \<Rightarrow> world" where
  "launch w = w @ [Launch]"

text \<open>
  \<^verbatim>\<open>
  ngOnInit() {
    if (!this.canvasRef) {
      throw new Error('Canvas should be defined to bootstrap the WebGL Engine');
    }
    this.engine = new Engine(this.canvasRef.nativeElement);
    this.timeService.setConsumer((experienceTime) => this.engine?.update(experienceTime));
    this.timeService.launch();
    this.screenSizeService.setConsumer((size) => this.engine?.resize(size));
    this.pointerService.setConsumer((pointerEvent) => this.engine?.reactToPointer(pointerEvent));
  }
  \<close>
\<close>

definition ngOnInit :: "threeViewerComponent \<Rightarrow> world \<Rightarrow> outcome \<times> threeViewerComponent \<times> world" where
  "ngOnInit c w =
     (case canvasRef c of
        None \<Rightarrow> (Threw (Error ''Canvas should be defined to bootstrap the WebGL Engine''), c, w)
      | Some r \<Rightarrow>
          (case new_Engine (nativeElement r) w of
             (e, w1) \<Rightarrow>
               (let c1 = c\<lparr>engine := Some e\<rparr>;
                    w2 = setConsumer TimeService OnTime w1;
                    w3 = launch w2;
                    w4 = setConsumer ScreenSizeService OnResize w3;
                    w5 = setConsumer PointerService OnPointer w4
                in (Returned, c1, w5))))"

text \<open>
  The bodies of the three consumers, run when a service delivers an event:
  \<^verbatim>\<open>this.engine?.update(experienceTime)\<close>, \<^verbatim>\<open>this.engine?.resize(size)\<close>,
  \<^verbatim>\<open>this.engine?.reactToPointer(pointerEvent)\<close>. With no engine the optional call does
  nothing.
\<close>

fun consume :: "consumer \<Rightarrow> nat \<Rightarrow> threeViewerComponent \<Rightarrow> world \<Rightarrow> world" where
  "consume OnTime ev c w = (case engine c of None \<Rightarrow> w | Some e \<Rightarrow> Engine_update e ev w)"
| "consume OnResize ev c w = (case engine c of None \<Rightarrow> w | Some e \<Rightarrow> Engine_resize e ev w)"
| "consume OnPointer ev c w =
     (case engine c of None \<Rightarrow> w | Some e \<Rightarrow> Engine_reactToPointer e ev w)"

text \<open>
  \<^verbatim>\<open>
  ngOnDestroy(): void {
    this.engine?.destroy();
  }
  \<close>
\<close>

definition ngOnDestroy :: "threeViewerComponent \<Rightarrow> world \<Rightarrow> outcome \<times> threeViewerComponent \<times> world" where
  "ngOnDestroy c w =
     (case engine c of
        None \<Rightarrow> (Returned, c, w)
      | Some e \<Rightarrow> (Returned, c, Engine_destroy e w))"

text \<open>What the log shows: how often an engine was released, how often the time source
  was started, and how many consumers were handed to a service.\<close>

definition destroy_calls :: "engine \<Rightarrow> world \<Rightarrow> nat" where
  "destroy_calls e w = count_list w (EngineDestroy e)"

definition launch_calls :: "world \<Rightarrow> nat" where
  "launch_calls w = count_list w Launch"

definition setConsumer_calls :: "service \<Rightarrow> world \<Rightarrow> nat" where
  "setConsumer_calls s w =
     length (filter (\<lambda>x. case x of SetConsumer s' k \<Rightarrow> s' = s | _ \<Rightarrow> False) w)"

text \<open>
  Modelled from the spec: the consumer a service holds (the services are not among the
  sources). A consumer is a registered callback, and the calls the component makes can
  only register one, so a service holds the consumer it was given last.
\<close>

fun registered_step :: "service \<Rightarrow> world_call \<Rightarrow> consumer option \<Rightarrow> consumer option" where
  "registered_step s (SetConsumer s' k) old = (if s' = s then Some k else old)"
| "registered_step s _ old = old"

definition registered :: "service \<Rightarrow> world \<Rightarrow> consumer option" where
  "registered s w = fold (registered_step s) w None"

text \<open>
  Angular runs the lifecycle hooks of a component one after the other; a hook that throws
  ends the sequence with its error.
\<close>

datatype hook = Init | Destroy

fun lifecycle :: "hook list \<Rightarrow> threeViewerComponent \<Rightarrow> world \<Rightarrow> outcome \<times> threeViewerComponent \<times> world" where
  "lifecycle [] c w = (Returned, c, w)"
| "lifecycle (Init # hs) c w =
     (case ngOnInit c w of
        (Returned, c', w') \<Rightarrow> lifecycle hs c' w'
      | (Threw e, c', w') \<Rightarrow> (Threw e, c', w'))"
| "lifecycle (Destroy # hs) c w =
     (case ngOnDestroy c w of
        (Returned, c', w') \<Rightarrow> lifecycle hs c' w'
      | (Threw e, c', w') \<Rightarrow> (Threw e, c', w'))"

section \<open>Concrete states\<close>

text \<open>
  The holder of the specification's scenario, actions idle, walking and running with
  idle current: it is the holder that the constructor of \<^verbatim>\<open>Fox\<close> builds from an asset
  with the three clips 0, 1 and 2. The second holder has an animation but no
  \<^verbatim>\<open>'current'\<close> entry.
\<close>

definition scenario_holder :: animationHolder where
  "scenario_holder =
     \<lparr>actions = [(''idle'', ClipAction 0), (''walking'', ClipAction 1),
                 (''running'', ClipAction 2), (''current'', ClipAction 0)],
      mixer = [Play (ClipAction 0)],
      current = None\<rparr>"

definition scenario_fox :: fox where
  "scenario_fox =
     \<lparr>gltf = \<lparr>animations = [0, 1, 2]\<rparr>,
      animationHolder = scenario_holder,
      debugFolder = Some [''playIdle'', ''playWalking'', ''playRunning'']\<rparr>"

definition holder_without_current :: animationHolder where
  "holder_without_current =
     \<lparr>actions = [(''walking'', ClipAction 1)], mixer = [], current = None\<rparr>"

definition viewer_with_canvas :: threeViewerComponent where
  "viewer_with_canvas = new_ThreeViewerComponent (Some (ElementRef 7))"

section \<open>What play does, case by case\<close>

lemma play_present:
  assumes "map_of (actions h) name = Some n" and "map_of (actions h) ''current'' = Some old"
  shows "play name h =
           (Returned, h\<lparr>mixer := mixer h @ [Reset n, Play n, CrossFadeFrom n old 1 False],
                        actions := AList.update ''current'' n (actions h)\<rparr>)"
  using assms by (simp add: play_def action_reset_def action_play_def crossFadeFrom_def)

lemma play_absent: "map_of (actions h) name = None \<Longrightarrow> play name h = (Threw TypeError, h)"
  by (simp add: play_def)

lemma play_no_current:
  assumes "map_of (actions h) name = Some n" and "map_of (actions h) ''current'' = None"
  shows "play name h = (Threw TypeError, h\<lparr>mixer := mixer h @ [Reset n, Play n]\<rparr>)"
  using assms by (simp add: play_def action_reset_def action_play_def crossFadeFrom_def)

lemma scenario_walking: "map_of (actions scenario_holder) ''walking'' = Some (ClipAction 1)"
  by (simp add: scenario_holder_def)

lemma scenario_current: "map_of (actions scenario_holder) ''current'' = Some (ClipAction 0)"
  by (simp add: scenario_holder_def)

lemma scenario_flying: "map_of (actions scenario_holder) ''flying'' = None"
  by (simp add: scenario_holder_def)

lemma scenario_mixer: "mixer scenario_holder = [Play (ClipAction 0)]"
  by (simp add: scenario_holder_def)

section \<open>Claims about play\<close>

text \<open>
  C1. When both \<open>name\<close> and \<^verbatim>\<open>'current'\<close> are keys of the actions, \<open>play name\<close> returns;
  the calls it adds to the library are exactly reset and play on the new action and a
  cross-fade from the old current action into it with duration 1 and no warping; it
  adds no stop of the old action; afterwards \<^verbatim>\<open>'current'\<close> is bound to the new action,
  and nothing but that entry changes.
\<close>

theorem play_cross_fades_to_named_action:
  assumes "map_of (actions h) name = Some n" and "map_of (actions h) ''current'' = Some old"
  shows "fst (play name h) = Returned
       \<and> mixer (snd (play name h)) = mixer h @ [Reset n, Play n, CrossFadeFrom n old 1 False]
       \<and> stop_calls old (mixer (snd (play name h))) = stop_calls old (mixer h)
       \<and> map_of (actions (snd (play name h))) ''current'' = Some n
       \<and> actions (snd (play name h)) = AList.update ''current'' n (actions h)
       \<and> current (snd (play name h)) = current h"
  by (simp add: play_present[OF assms] stop_calls_def update_conv')

text \<open>C1 on the scenario holder: after \<^verbatim>\<open>play("walking")\<close> the current action is walking.\<close>

theorem play_cross_fades_to_named_action_witness:
  "map_of (actions scenario_holder) ''walking'' = Some (ClipAction 1)
   \<and> map_of (actions scenario_holder) ''current'' = Some (ClipAction 0)
   \<and> fst (play ''walking'' scenario_holder) = Returned
   \<and> mixer (snd (play ''walking'' scenario_holder)) =
       [Play (ClipAction 0), Reset (ClipAction 1), Play (ClipAction 1),
        CrossFadeFrom (ClipAction 1) (ClipAction 0) 1 False]
   \<and> map_of (actions (snd (play ''walking'' scenario_holder))) ''current'' = Some (ClipAction 1)"
  using play_cross_fades_to_named_action[OF scenario_walking scenario_current]
    scenario_walking scenario_current scenario_mixer
  by (simp add: update_conv')

text \<open>
  C2, as stated, fails: on the scenario holder \<^verbatim>\<open>play("flying")\<close> ends in the runtime's
  TypeError, which is not an error thrown by the program to report the missing name.
\<close>

theorem play_missing_name_is_not_a_not_found_error:
  "map_of (actions scenario_holder) ''flying'' = None
   \<and> fst (play ''flying'' scenario_holder) = Threw TypeError
   \<and> \<not> not_found_error (fst (play ''flying'' scenario_holder))"
  by (simp add: scenario_holder_def play_def not_found_error_def)

text \<open>
  C2, amended: for a name that is not a key of the actions, \<open>play name\<close> fails with the
  TypeError raised by calling \<^verbatim>\<open>reset\<close> on \<^verbatim>\<open>undefined\<close>, which reaches the caller.
\<close>

theorem play_missing_name_throws_TypeError:
  assumes "map_of (actions h) name = None"
  shows "fst (play name h) = Threw TypeError"
  by (simp add: play_absent[OF assms])

theorem play_missing_name_throws_TypeError_witness:
  "map_of (actions scenario_holder) ''flying'' = None
   \<and> fst (play ''flying'' scenario_holder) = Threw TypeError"
  using play_missing_name_throws_TypeError[OF scenario_flying] scenario_flying
  by simp

text \<open>
  C8, as stated, fails: a holder with the key \<^verbatim>\<open>'walking'\<close> and no \<^verbatim>\<open>'current'\<close> entry
  satisfies the precondition, yet \<^verbatim>\<open>play("walking")\<close> reads the missing \<^verbatim>\<open>'current'\<close>
  entry and fails in the cross-fade.
\<close>

theorem play_without_current_fails:
  "map_of (actions holder_without_current) ''walking'' = Some (ClipAction 1)
   \<and> map_of (actions holder_without_current) ''current'' = None
   \<and> fst (play ''walking'' holder_without_current) = Threw TypeError"
  by (simp add: holder_without_current_def play_def action_reset_def action_play_def
      crossFadeFrom_def)

text \<open>
  C8, amended: when \<open>name\<close> is a key of the actions, \<open>play name\<close> returns without failure
  exactly when the \<^verbatim>\<open>'current'\<close> entry is present too.
\<close>

theorem play_returns_iff_current_present:
  assumes "map_of (actions h) name = Some n"
  shows "fst (play name h) = Returned \<longleftrightarrow> map_of (actions h) ''current'' \<noteq> None"
proof (cases "map_of (actions h) ''current''")
  case None
  then show ?thesis by (simp add: play_no_current[OF assms None])
next
  case (Some old)
  then show ?thesis by (simp add: play_present[OF assms Some])
qed

theorem play_returns_iff_current_present_witness:
  "map_of (actions scenario_holder) ''walking'' = Some (ClipAction 1)
   \<and> map_of (actions scenario_holder) ''current'' \<noteq> None
   \<and> fst (play ''walking'' scenario_holder) = Returned"
  using play_returns_iff_current_present[OF scenario_walking] scenario_walking scenario_current
  by simp

text \<open>
  C9. For a name that is not a key of the actions, the holder after the failed call is
  the holder before it: the actions, the \<^verbatim>\<open>'current'\<close> entry among them, and the library's
  log are untouched.
\<close>

theorem play_missing_name_leaves_holder:
  assumes "map_of (actions h) name = None"
  shows "snd (play name h) = h"
  by (simp add: play_absent[OF assms])

theorem play_missing_name_leaves_holder_witness:
  "map_of (actions scenario_holder) ''flying'' = None
   \<and> snd (play ''flying'' scenario_holder) = scenario_holder"
  using play_missing_name_leaves_holder[OF scenario_flying] scenario_flying
  by simp

text \<open>
  C10. When the \<^verbatim>\<open>'current'\<close> entry is set, \<^verbatim>\<open>play("current")\<close> returns and leaves
  \<^verbatim>\<open>'current'\<close> bound to the same action, the actions unchanged; the cross-fade it starts
  goes from that action into itself.
\<close>

theorem play_current_keeps_current:
  assumes "map_of (actions h) ''current'' = Some a"
  shows "fst (play ''current'' h) = Returned
       \<and> map_of (actions (snd (play ''current'' h))) ''current'' = Some a
       \<and> actions (snd (play ''current'' h)) = actions h
       \<and> mixer (snd (play ''current'' h)) = mixer h @ [Reset a, Play a, CrossFadeFrom a a 1 False]"
  by (simp add: play_present[OF assms assms] update_triv[OF assms] assms)

theorem play_current_keeps_current_witness:
  "map_of (actions scenario_holder) ''current'' = Some (ClipAction 0)
   \<and> map_of (actions (snd (play ''current'' scenario_holder))) ''current'' = Some (ClipAction 0)
   \<and> mixer (snd (play ''current'' scenario_holder)) =
       [Play (ClipAction 0), Reset (ClipAction 0), Play (ClipAction 0),
        CrossFadeFrom (ClipAction 0) (ClipAction 0) 1 False]"
  using play_current_keeps_current[OF scenario_current] scenario_current scenario_mixer
  by simp

section \<open>The invariant of the fox's holder\<close>

lemma filter_update_same:
  "filter (\<lambda>kv. fst kv \<noteq> k) (AList.update k v al) = filter (\<lambda>kv. fst kv \<noteq> k) al"
  by (induction al) auto

lemma held_actions_play: "held_actions (snd (play name h)) = held_actions h"
proof (cases "map_of (actions h) name")
  case None
  then show ?thesis by (simp add: play_absent)
next
  case (Some n)
  show ?thesis
  proof (cases "map_of (actions h) ''current''")
    case None
    then show ?thesis by (simp add: play_no_current[OF Some] held_actions_def)
  next
    case (Some old)
    with \<open>map_of (actions h) name = Some n\<close> show ?thesis
      by (simp add: play_present held_actions_def filter_update_same)
  qed
qed

lemma lookup_held:
  assumes "map_of (actions h) name = Some n" and "name \<noteq> ''current''"
  shows "n \<in> set (held_actions h)"
proof -
  from assms(1) have "(name, n) \<in> set (actions h)" by (rule map_of_SomeD)
  with assms(2) show ?thesis by (force simp: held_actions_def)
qed

text \<open>On any holder, \<open>play\<close> keeps the invariant, whether it returns or throws.\<close>

lemma play_preserves_current_valid:
  assumes "current_valid h"
  shows "current_valid (snd (play name h))"
proof (cases "map_of (actions h) name")
  case None
  with assms show ?thesis by (simp add: play_absent)
next
  case (Some n)
  from assms obtain old where old: "map_of (actions h) ''current'' = Some old"
    and mem: "old \<in> set (held_actions h)"
    by (auto simp: current_valid_def split: option.splits)
  have n_held: "n \<in> set (held_actions h)"
  proof (cases "name = ''current''")
    case True
    with Some old mem show ?thesis by simp
  next
    case False
    with Some show ?thesis by (rule lookup_held)
  qed
  have "map_of (actions (snd (play name h))) ''current'' = Some n"
    by (simp add: play_present[OF Some old] update_conv')
  with n_held show ?thesis
    by (simp add: current_valid_def held_actions_play)
qed

lemma configureAnimation_actions:
  assumes "configureAnimation f = (Returned, f')" and "actions (animationHolder f) = []"
  shows "\<exists>a0 a1 a2. actions (animationHolder f') =
           [(''idle'', a0), (''walking'', a1), (''running'', a2), (''current'', a0)]"
  using assms
  by (auto simp: configureAnimation_def clipAction_def array_get_def set_action_def
        folder_add_def Let_def
        split: option.splits sum.splits if_splits)

lemma configureAnimation_current_valid:
  assumes "configureAnimation f = (Returned, f')" and "actions (animationHolder f) = []"
  shows "current_valid (animationHolder f')"
proof -
  from configureAnimation_actions[OF assms] obtain a0 a1 a2 where
    "actions (animationHolder f') =
       [(''idle'', a0), (''walking'', a1), (''running'', a2), (''current'', a0)]"
    by blast
  then show ?thesis by (simp add: current_valid_def held_actions_def)
qed

lemma new_Fox_current_valid:
  assumes "new_Fox d item = Inr f"
  shows "current_valid (animationHolder f)"
proof -
  from assms obtain g where item: "item = Some g"
    by (cases item) (simp_all add: new_Fox_def)
  let ?f0 = "\<lparr>gltf = g, animationHolder = new_AnimationHolder [] None,
               debugFolder = (if d then Some [] else None)\<rparr>"
  from assms item have "configureAnimation ?f0 = (Returned, f)"
    by (auto simp: new_Fox_def split: prod.splits outcome.splits)
  moreover have "actions (animationHolder ?f0) = []"
    by (simp add: new_AnimationHolder_def)
  ultimately show ?thesis by (rule configureAnimation_current_valid)
qed

lemma new_Fox_scenario: "new_Fox True (Some \<lparr>animations = [0, 1, 2]\<rparr>) = Inr scenario_fox"
  by (simp add: new_Fox_def configureAnimation_def clipAction_def array_get_def set_action_def
      folder_add_def new_AnimationHolder_def action_play_def scenario_fox_def
      scenario_holder_def)

text \<open>
  C5. Every fox the constructor returns has a holder whose \<^verbatim>\<open>'current'\<close> entry is present
  and is one of the actions held under an animation name, and every later operation
  (\<open>play\<close> with any name, a frame update) keeps it so.
\<close>

theorem fox_current_always_valid:
  assumes "fox_reachable f"
  shows "current_valid (animationHolder f)"
  using assms
proof (induction rule: fox_reachable.induct)
  case (constructed debugUI item f)
  then show ?case by (rule new_Fox_current_valid)
next
  case (played f name)
  then show ?case
    by (simp add: fox_play_def split_beta play_preserves_current_valid)
next
  case (updated f delta)
  then show ?case
    by (simp add: fox_update_def current_valid_def held_actions_def split: option.splits)
qed

text \<open>C5 on the fox built from three clips, after the running button and a frame.\<close>

theorem fox_current_always_valid_witness:
  "new_Fox True (Some \<lparr>animations = [0, 1, 2]\<rparr>) = Inr scenario_fox
   \<and> current_valid (animationHolder scenario_fox)
   \<and> current_valid (animationHolder (fox_update 16 (snd (fox_play ''running'' scenario_fox))))"
proof -
  have r0: "fox_reachable scenario_fox"
    by (rule constructed[OF new_Fox_scenario])
  have r1: "fox_reachable (fox_update 16 (snd (fox_play ''running'' scenario_fox)))"
    by (rule updated[OF played[OF r0]])
  show ?thesis
    using fox_current_always_valid[OF r0] fox_current_always_valid[OF r1] new_Fox_scenario
    by simp
qed

section \<open>Claims about the viewer's lifecycle\<close>

lemma ngOnInit_present:
  assumes "canvasRef c = Some r"
  shows "ngOnInit c w =
           (Returned, c\<lparr>engine := Some (engines_built w)\<rparr>,
            w @ [EngineNew (engines_built w) (nativeElement r),
                 SetConsumer TimeService OnTime, Launch,
                 SetConsumer ScreenSizeService OnResize,
                 SetConsumer PointerService OnPointer])"
  using assms by (simp add: ngOnInit_def new_Engine_def setConsumer_def launch_def Let_def)

lemma ngOnInit_absent:
  assumes "canvasRef c = None"
  shows "ngOnInit c w =
           (Threw (Error ''Canvas should be defined to bootstrap the WebGL Engine''), c, w)"
  using assms by (simp add: ngOnInit_def)

lemma registered_append:
  "registered s (w @ [x]) = registered_step s x (registered s w)"
  by (simp add: registered_def)

lemma ngOnDestroy_unfold:
  "ngOnDestroy c w =
     (Returned, c, w @ (case engine c of None \<Rightarrow> [] | Some e \<Rightarrow> [EngineDestroy e]))"
  by (simp add: ngOnDestroy_def Engine_destroy_def split: option.splits)

lemma lifecycle_destroys:
  "lifecycle (replicate n Destroy) c w =
     (Returned, c,
      w @ (case engine c of None \<Rightarrow> [] | Some e \<Rightarrow> replicate n (EngineDestroy e)))"
proof (induction n arbitrary: w)
  case 0
  then show ?case by (simp split: option.splits)
next
  case (Suc n)
  then show ?case
    by (simp add: ngOnDestroy_unfold replicate_app_Cons_same split: option.splits)
qed

lemma count_list_replicate: "count_list (replicate n x) y = (if x = y then n else 0)"
  by (induction n) auto

lemma viewer_canvas: "canvasRef viewer_with_canvas = Some (ElementRef 7)"
  by (simp add: viewer_with_canvas_def new_ThreeViewerComponent_def)

lemma viewer_engine: "engine viewer_with_canvas = None"
  by (simp add: viewer_with_canvas_def new_ThreeViewerComponent_def)

text \<open>
  C3, as stated, fails: after initialisation, two calls of \<open>ngOnDestroy\<close> return without
  error, the engine field still holds the engine, and the engine has been released twice.
\<close>

theorem destroy_twice_releases_twice:
  "fst (lifecycle [Init, Destroy, Destroy] viewer_with_canvas []) = Returned
   \<and> engine (fst (snd (lifecycle [Init, Destroy, Destroy] viewer_with_canvas []))) = Some 0
   \<and> destroy_calls 0 (snd (snd (lifecycle [Init, Destroy, Destroy] viewer_with_canvas []))) = 2"
  by (simp add: viewer_canvas ngOnInit_present ngOnDestroy_unfold engines_built_def
      destroy_calls_def)

text \<open>
  C3, amended: any number \<open>n\<close> of consecutive calls of \<open>ngOnDestroy\<close> returns without
  error and leaves the component, its engine field included, as it was. When no engine
  is held the calls do nothing: the world is exactly as before. When an engine is held
  the world is extended by exactly \<open>n\<close> calls of \<^verbatim>\<open>destroy()\<close> on that engine and by
  nothing else, so \<open>n\<close> calls release it \<open>n\<close> times.
\<close>

theorem repeated_ngOnDestroy:
  "lifecycle (replicate n Destroy) c w =
     (Returned, c,
      w @ (case engine c of None \<Rightarrow> [] | Some held \<Rightarrow> replicate n (EngineDestroy held)))
   \<and> fst (lifecycle (replicate n Destroy) c w) = Returned
   \<and> fst (snd (lifecycle (replicate n Destroy) c w)) = c
   \<and> destroy_calls e (snd (snd (lifecycle (replicate n Destroy) c w))) =
       destroy_calls e w + (if engine c = Some e then n else 0)"
  by (simp add: lifecycle_destroys destroy_calls_def count_list_replicate split: option.splits)

text \<open>
  C3, amended, on two calls: without an engine a world that already holds a call is
  returned as it is; with engine 0 held, two calls add two releases of engine 0.
\<close>

theorem repeated_ngOnDestroy_witness:
  "lifecycle (replicate 2 Destroy) viewer_with_canvas [Launch] =
     (Returned, viewer_with_canvas, [Launch])
   \<and> lifecycle (replicate 2 Destroy) (viewer_with_canvas\<lparr>engine := Some 0\<rparr>) [EngineNew 0 7] =
     (Returned, viewer_with_canvas\<lparr>engine := Some 0\<rparr>,
      [EngineNew 0 7, EngineDestroy 0, EngineDestroy 0])
   \<and> destroy_calls 0 (snd (snd (lifecycle (replicate 2 Destroy)
        (viewer_with_canvas\<lparr>engine := Some 0\<rparr>) [EngineNew 0 7]))) = 2"
  using repeated_ngOnDestroy[of 2 viewer_with_canvas "[Launch]" 0]
    repeated_ngOnDestroy[of 2 "viewer_with_canvas\<lparr>engine := Some 0\<rparr>" "[EngineNew 0 7]" 0]
  by (simp add: viewer_engine destroy_calls_def numeral_2_eq_2)

text \<open>
  C4. Without a canvas reference \<open>ngOnInit\<close> throws the error of its \<^verbatim>\<open>throw\<close> statement;
  the component, its engine field included, and the world are as before: no engine has
  been built and no consumer registered.
\<close>

theorem ngOnInit_without_canvas_throws:
  assumes "canvasRef c = None"
  shows "fst (ngOnInit c w) =
           Threw (Error ''Canvas should be defined to bootstrap the WebGL Engine'')
       \<and> fst (snd (ngOnInit c w)) = c
       \<and> engine (fst (snd (ngOnInit c w))) = engine c
       \<and> snd (snd (ngOnInit c w)) = w
       \<and> engines_built (snd (snd (ngOnInit c w))) = engines_built w
       \<and> registered s (snd (snd (ngOnInit c w))) = registered s w"
  by (simp add: ngOnInit_absent[OF assms])

text \<open>C4 on a fresh component without canvas: the engine stays undefined.\<close>

theorem ngOnInit_without_canvas_throws_witness:
  "canvasRef (new_ThreeViewerComponent None) = None
   \<and> fst (ngOnInit (new_ThreeViewerComponent None) []) =
       Threw (Error ''Canvas should be defined to bootstrap the WebGL Engine'')
   \<and> engine (fst (snd (ngOnInit (new_ThreeViewerComponent None) []))) = None
   \<and> snd (snd (ngOnInit (new_ThreeViewerComponent None) [])) = []
   \<and> engines_built (snd (snd (ngOnInit (new_ThreeViewerComponent None) []))) = 0
   \<and> registered TimeService (snd (snd (ngOnInit (new_ThreeViewerComponent None) []))) = None"
proof -
  have a: "canvasRef (new_ThreeViewerComponent None) = None"
    by (simp add: new_ThreeViewerComponent_def)
  have e: "engine (new_ThreeViewerComponent None) = None"
    by (simp add: new_ThreeViewerComponent_def)
  show ?thesis
    using ngOnInit_without_canvas_throws[OF a, of "[]" TimeService] a e
    by (simp add: engines_built_def registered_def)
qed

text \<open>
  C6, as stated, fails: after initialisation and destruction the three services still
  hold the consumers the component registered; only the engine has been released.
\<close>

theorem consumers_survive_destroy:
  "registered TimeService (snd (snd (lifecycle [Init, Destroy] viewer_with_canvas []))) =
     Some OnTime
   \<and> registered ScreenSizeService (snd (snd (lifecycle [Init, Destroy] viewer_with_canvas []))) =
     Some OnResize
   \<and> registered PointerService (snd (snd (lifecycle [Init, Destroy] viewer_with_canvas []))) =
     Some OnPointer
   \<and> destroy_calls 0 (snd (snd (lifecycle [Init, Destroy] viewer_with_canvas []))) = 1"
  by (simp add: viewer_canvas ngOnInit_present ngOnDestroy_unfold engines_built_def
      destroy_calls_def registered_def)

text \<open>
  C6, amended: \<open>ngOnDestroy\<close> only disposes the engine. It returns, leaves the component
  as it was, and extends the world by the one call of \<^verbatim>\<open>destroy()\<close> on the engine when
  one is held and by nothing when none is held. It makes no call to the time,
  screen-size or pointer service: no consumer is set, the time source is not started,
  no engine is built, and every service holds after the call the consumer it held
  before.
\<close>

theorem ngOnDestroy_leaves_consumers:
  "ngOnDestroy c w =
     (Returned, c, w @ (case engine c of None \<Rightarrow> [] | Some held \<Rightarrow> [EngineDestroy held]))
   \<and> fst (ngOnDestroy c w) = Returned
   \<and> fst (snd (ngOnDestroy c w)) = c
   \<and> registered s (snd (snd (ngOnDestroy c w))) = registered s w
   \<and> setConsumer_calls s (snd (snd (ngOnDestroy c w))) = setConsumer_calls s w
   \<and> launch_calls (snd (snd (ngOnDestroy c w))) = launch_calls w
   \<and> engines_built (snd (snd (ngOnDestroy c w))) = engines_built w
   \<and> destroy_calls e (snd (snd (ngOnDestroy c w))) =
       destroy_calls e w + (if engine c = Some e then 1 else 0)"
  by (simp add: ngOnDestroy_unfold registered_append setConsumer_calls_def destroy_calls_def
      launch_calls_def engines_built_def split: option.splits)

text \<open>
  C6, amended, on a running viewer: the world after the call is the world before it
  followed by the release of engine 0, and the time service still holds its consumer.
\<close>

theorem ngOnDestroy_leaves_consumers_witness:
  "ngOnDestroy (viewer_with_canvas\<lparr>engine := Some 0\<rparr>)
     [EngineNew 0 7, SetConsumer TimeService OnTime, Launch] =
     (Returned, viewer_with_canvas\<lparr>engine := Some 0\<rparr>,
      [EngineNew 0 7, SetConsumer TimeService OnTime, Launch, EngineDestroy 0])
   \<and> registered TimeService
       (snd (snd (ngOnDestroy (viewer_with_canvas\<lparr>engine := Some 0\<rparr>)
          [EngineNew 0 7, SetConsumer TimeService OnTime, Launch]))) = Some OnTime
   \<and> launch_calls
       (snd (snd (ngOnDestroy (viewer_with_canvas\<lparr>engine := Some 0\<rparr>)
          [EngineNew 0 7, SetConsumer TimeService OnTime, Launch]))) = 1
   \<and> destroy_calls 0
       (snd (snd (ngOnDestroy (viewer_with_canvas\<lparr>engine := Some 0\<rparr>)
          [EngineNew 0 7, SetConsumer TimeService OnTime, Launch]))) = 1"
  using ngOnDestroy_leaves_consumers[of "viewer_with_canvas\<lparr>engine := Some 0\<rparr>"
      "[EngineNew 0 7, SetConsumer TimeService OnTime, Launch]" TimeService 0]
  by (simp add: registered_def destroy_calls_def launch_calls_def)

text \<open>
  C7. With a canvas reference \<open>ngOnInit\<close> returns; it builds one engine from the canvas
  element and stores it in the engine field, registers one consumer on each of the
  time, screen-size and pointer services, and starts the time source once, in the
  order of the source; each registered consumer forwards its event to that engine.
\<close>

theorem ngOnInit_with_canvas:
  assumes "canvasRef c = Some r"
  shows "ngOnInit c w =
           (Returned, c\<lparr>engine := Some (engines_built w)\<rparr>,
            w @ [EngineNew (engines_built w) (nativeElement r),
                 SetConsumer TimeService OnTime, Launch,
                 SetConsumer ScreenSizeService OnResize,
                 SetConsumer PointerService OnPointer])
       \<and> engines_built (snd (snd (ngOnInit c w))) = engines_built w + 1
       \<and> setConsumer_calls TimeService (snd (snd (ngOnInit c w))) =
           setConsumer_calls TimeService w + 1
       \<and> setConsumer_calls ScreenSizeService (snd (snd (ngOnInit c w))) =
           setConsumer_calls ScreenSizeService w + 1
       \<and> setConsumer_calls PointerService (snd (snd (ngOnInit c w))) =
           setConsumer_calls PointerService w + 1
       \<and> launch_calls (snd (snd (ngOnInit c w))) = launch_calls w + 1
       \<and> registered TimeService (snd (snd (ngOnInit c w))) = Some OnTime
       \<and> registered ScreenSizeService (snd (snd (ngOnInit c w))) = Some OnResize
       \<and> registered PointerService (snd (snd (ngOnInit c w))) = Some OnPointer
       \<and> consume OnTime ev (fst (snd (ngOnInit c w))) w' =
           w' @ [EngineUpdate (engines_built w) ev]
       \<and> consume OnResize ev (fst (snd (ngOnInit c w))) w' =
           w' @ [EngineResize (engines_built w) ev]
       \<and> consume OnPointer ev (fst (snd (ngOnInit c w))) w' =
           w' @ [EngineReactToPointer (engines_built w) ev]"
  by (simp add: ngOnInit_present[OF assms] engines_built_def setConsumer_calls_def
      launch_calls_def registered_def Engine_update_def Engine_resize_def
      Engine_reactToPointer_def)

text \<open>C7 on a fresh component with canvas 7 in an empty world.\<close>

theorem ngOnInit_with_canvas_witness:
  "canvasRef viewer_with_canvas = Some (ElementRef 7)
   \<and> ngOnInit viewer_with_canvas [] =
       (Returned, \<lparr>canvasRef = Some (ElementRef 7), engine = Some 0\<rparr>,
        [EngineNew 0 7, SetConsumer TimeService OnTime, Launch,
         SetConsumer ScreenSizeService OnResize, SetConsumer PointerService OnPointer])
   \<and> launch_calls (snd (snd (ngOnInit viewer_with_canvas []))) = 1"
  using ngOnInit_with_canvas[OF viewer_canvas, of "[]"] viewer_canvas
  by (simp add: engines_built_def launch_calls_def viewer_with_canvas_def
      new_ThreeViewerComponent_def)

end
